theory Spec2Isabelle
  imports Complex_Main
begin

section \<open>The dataset module \<open>regression_dataset_mP.py\<close>\<close>

text \<open>
  The module declares one dataset descriptor (\<open>apolloscape\<close>), a registry holding it,
  and the function \<open>get_dataset\<close> that validates a dataset name and a split name against
  the registry and assembles a slim \<open>Dataset\<close> handle.

  Python values are modelled as follows: \<open>str\<close> as \<open>string\<close>, \<open>int\<close> as \<open>int\<close>, \<open>dict\<close> as
  a map (the two schema dictionaries as association lists in the order of their
  literals), \<open>list\<close> as a list, a named tuple and an attribute bag as records, and an
  exception as the \<open>Inl\<close> branch of a sum. The float literals of \<open>pose_range\<close> are
  modelled by the decimal numbers they are written as (so \<open>-0.\<close> is \<open>0\<close>); no statement
  below depends on their arithmetic.
\<close>

subsection \<open>Library values the module builds\<close>

datatype dtype = tf_string | tf_int64 | tf_float32 | tf_uint8 | tf_uint16

datatype default_value = str_default string | int_default int

text \<open>
  \<open>tf.FixedLenFeature(shape, dtype, default_value)\<close> and \<open>tf.VarLenFeature(dtype)\<close>; the
  shape \<open>()\<close> is the empty list.
\<close>

datatype feature =
    FixedLenFeature "nat list" dtype default_value
  | VarLenFeature dtype

text \<open>
  \<open>tfexample_decoder.Image(image_key, format_key, channels, dtype)\<close>, whose \<open>dtype\<close>
  defaults to \<open>tf.uint8\<close>, and \<open>tfexample_decoder.Tensor(tensor_key)\<close>.
\<close>

datatype item_handler =
    Image string string nat dtype
  | Tensor string

record TFExampleDecoder =
  keys_to_features :: "(string \<times> feature) list"
  items_to_handlers :: "(string \<times> item_handler) list"

datatype reader = TFRecordReader

datatype error = ValueError string

subsection \<open>String helpers\<close>

text \<open>
  \<open>fmt % arg\<close> for a \<open>str\<close> argument and a template whose only conversion specifier is one
  \<open>%s\<close>: the argument replaces the specifier. Both templates of the module are literals of
  this shape.
\<close>

fun str_mod :: "string \<Rightarrow> string \<Rightarrow> string" where
  "str_mod [] arg = []"
| "str_mod [c] arg = [c]"
| "str_mod (c # d # cs) arg =
     (if c = CHR ''%'' \<and> d = CHR ''s'' then arg @ cs else c # str_mod (d # cs) arg)"

text \<open>The decimal digits of a natural number, as \<open>'%d' % n\<close> prints them.\<close>

fun digit_char :: "nat \<Rightarrow> char" where
  "digit_char n = char_of (48 + n)"

fun str_of_nat :: "nat \<Rightarrow> string" where
  "str_of_nat n =
     (if n < 10 then [digit_char n] else str_of_nat (n div 10) @ [digit_char (n mod 10)])"

text \<open>
  \<open>os.path.join(a, b)\<close> of \<open>posixpath\<close>, for two components: an absolute second
  component replaces the first; otherwise the two are joined by one \<open>/\<close>, which is left
  out when the first component is empty or already ends in \<open>/\<close>.
\<close>

definition startswith :: "string \<Rightarrow> string \<Rightarrow> bool" where
  "startswith s p = (take (length p) s = p)"

definition endswith :: "string \<Rightarrow> string \<Rightarrow> bool" where
  "endswith s p = (length p \<le> length s \<and> drop (length s - length p) s = p)"

definition os_path_join :: "string \<Rightarrow> string \<Rightarrow> string" where
  "os_path_join a b =
     (if startswith b ''/'' then b
      else if a = [] \<or> endswith a ''/'' then a @ b
      else a @ ''/'' @ b)"

subsection \<open>Module-level data\<close>

definition ITEMS_TO_DESCRIPTIONS :: "string \<rightharpoonup> string" where
  "ITEMS_TO_DESCRIPTIONS =
     [''image'' \<mapsto> ''A color image of varying height and width.'',
      ''labels_class'' \<mapsto>
        ''A semantic regression label whose size matches image.'' @
        ''Its values range from 0 (background) to real values (pose and shape representations).'']"

record DatasetDescriptor =
  splits_to_sizes :: "string \<rightharpoonup> int"
  num_classes :: int
  shape_dims :: nat
  shape_bins :: int
  height_ori :: int
  width_ori :: int
  pose_range :: "real list list"
  bin_nums :: "int list"
  output_names :: "string list"
  output_names_summary :: "string list"

definition SHAPE_DIMS :: nat where
  "SHAPE_DIMS = 10"

definition SHAPE_BINS :: int where
  "SHAPE_BINS = 32"

definition POSE_BINS :: int where
  "POSE_BINS = 128"

text \<open>\<open>['shape_%d' % dim for dim in range(n)]\<close>\<close>

definition shape_names :: "nat \<Rightarrow> string list" where
  "shape_names n = map (\<lambda>dim. ''shape_'' @ str_of_nat dim) [0 ..< n]"

definition APOLLOSCAPE_INFORMATION :: DatasetDescriptor where
  "APOLLOSCAPE_INFORMATION =
     \<lparr> splits_to_sizes = [''train'' \<mapsto> 4611, ''val'' \<mapsto> 480, ''test'' \<mapsto> 1041],
       num_classes = 7 + 2,
       shape_dims = SHAPE_DIMS,
       shape_bins = SHAPE_BINS,
       height_ori = 678,
       width_ori = 1692,
       pose_range =
         [[-1, 1], [-1, 1], [-1, 1], [-1, 1], [-0, 0], [-0, 0], [11 / 10, 350], [0, 0]],
       bin_nums =
         replicate 4 POSE_BINS @ [1, 1, POSE_BINS, 1] @ replicate SHAPE_DIMS SHAPE_BINS,
       output_names =
         [''q1'', ''q2'', ''q3'', ''q4'', ''x'', ''y'', ''z_log_dense'', ''z_log_offset'']
           @ shape_names SHAPE_DIMS,
       output_names_summary =
         [''q1'', ''q2'', ''q3'', ''q4'', ''x'', ''y'', ''z_object''] @ shape_names SHAPE_DIMS \<rparr>"

definition DATASETS_INFORMATION :: "string \<rightharpoonup> DatasetDescriptor" where
  "DATASETS_INFORMATION = [''apolloscape'' \<mapsto> APOLLOSCAPE_INFORMATION]"

definition FILE_PATTERN :: string where
  "FILE_PATTERN = ''%s-*''"

text \<open>
  The mutable objects bound at module level are the two dictionaries. A function body
  without a \<open>global\<close> statement cannot rebind a module name, so these two objects are all
  of the module's state that a call could change; the integer and string constants above
  are immutable values.
\<close>

record module_state =
  g_ITEMS_TO_DESCRIPTIONS :: "string \<rightharpoonup> string"
  g_DATASETS_INFORMATION :: "string \<rightharpoonup> DatasetDescriptor"

definition module_init :: module_state where
  "module_init =
     \<lparr> g_ITEMS_TO_DESCRIPTIONS = ITEMS_TO_DESCRIPTIONS,
       g_DATASETS_INFORMATION = DATASETS_INFORMATION \<rparr>"

subsection \<open>The caller's flags and the returned handle\<close>

text \<open>
  \<open>FLAGS\<close> is the caller's option object. The function reads its attribute \<open>if_depth\<close>
  only; whatever else the object carries is the extension part of the record.
\<close>

record flags =
  if_depth :: bool

text \<open>
  \<open>slim.dataset.Dataset\<close> stores its keyword arguments as attributes; the fields carry
  the keyword names with the prefix \<open>ds_\<close>.
\<close>

record Dataset =
  ds_data_sources :: string
  ds_reader :: reader
  ds_decoder :: TFExampleDecoder
  ds_num_samples :: int
  ds_items_to_descriptions :: "string \<rightharpoonup> string"
  ds_pose_range :: "real list list"
  ds_bin_nums :: "int list"
  ds_SHAPE_DIMS :: nat
  ds_output_names :: "string list"
  ds_output_names_summary :: "string list"
  ds_num_classes :: int
  ds_SHAPE_BINS :: int
  ds_POSE_BINS :: int
  ds_name :: string
  ds_height_ori :: int
  ds_width_ori :: int
  ds_multi_label :: bool
  ds_if_depth :: bool

subsection \<open>The decoding schemas\<close>

definition train_keys_to_features :: "(string \<times> feature) list" where
  "train_keys_to_features =
     [(''image/encoded'', FixedLenFeature [] tf_string (str_default '''')),
      (''image/filename'', FixedLenFeature [] tf_string (str_default '''')),
      (''image/format'', FixedLenFeature [] tf_string (str_default ''png'')),
      (''image/height'', FixedLenFeature [] tf_int64 (int_default 0)),
      (''image/width'', FixedLenFeature [] tf_int64 (int_default 0)),
      (''posedict/encoded'', VarLenFeature tf_float32),
      (''rotuvddict/encoded'', VarLenFeature tf_float32),
      (''bboxdict/encoded'', VarLenFeature tf_float32),
      (''shapeiddict/encoded'', VarLenFeature tf_float32),
      (''vis/encoded'', FixedLenFeature [] tf_string (str_default '''')),
      (''vis/format'', FixedLenFeature [] tf_string (str_default ''png'')),
      (''depth/encoded'', FixedLenFeature [] tf_string (str_default '''')),
      (''depth/format'', FixedLenFeature [] tf_string (str_default ''png'')),
      (''seg/encoded'', FixedLenFeature [] tf_string (str_default '''')),
      (''seg/format'', FixedLenFeature [] tf_string (str_default ''png'')),
      (''shape_id_map/encoded'', FixedLenFeature [] tf_string (str_default '''')),
      (''shape_id_map/format'', FixedLenFeature [] tf_string (str_default ''png''))]"

definition train_items_to_handlers :: "(string \<times> item_handler) list" where
  "train_items_to_handlers =
     [(''image'', Image ''image/encoded'' ''image/format'' 3 tf_uint8),
      (''vis'', Image ''vis/encoded'' ''vis/format'' 3 tf_uint8),
      (''depth'', Image ''depth/encoded'' ''depth/format'' 1 tf_uint16),
      (''seg'', Image ''seg/encoded'' ''seg/format'' 1 tf_uint8),
      (''image_name'', Tensor ''image/filename''),
      (''height'', Tensor ''image/height''),
      (''width'', Tensor ''image/width''),
      (''pose_dict'', Tensor ''posedict/encoded''),
      (''rotuvd_dict'', Tensor ''rotuvddict/encoded''),
      (''bbox_dict'', Tensor ''bboxdict/encoded''),
      (''shape_id_dict'', Tensor ''shapeiddict/encoded''),
      (''shape_id_map'', Image ''shape_id_map/encoded'' ''shape_id_map/format'' 1 tf_uint8)]"

definition test_keys_to_features :: "(string \<times> feature) list" where
  "test_keys_to_features =
     [(''image/encoded'', FixedLenFeature [] tf_string (str_default '''')),
      (''image/filename'', FixedLenFeature [] tf_string (str_default '''')),
      (''image/format'', FixedLenFeature [] tf_string (str_default ''png'')),
      (''image/height'', FixedLenFeature [] tf_int64 (int_default 0)),
      (''image/width'', FixedLenFeature [] tf_int64 (int_default 0)),
      (''seg/encoded'', FixedLenFeature [] tf_string (str_default '''')),
      (''seg/format'', FixedLenFeature [] tf_string (str_default ''png''))]"

definition test_items_to_handlers :: "(string \<times> item_handler) list" where
  "test_items_to_handlers =
     [(''image'', Image ''image/encoded'' ''image/format'' 3 tf_uint8),
      (''seg'', Image ''seg/encoded'' ''seg/format'' 1 tf_uint8),
      (''image_name'', Tensor ''image/filename''),
      (''height'', Tensor ''image/height''),
      (''width'', Tensor ''image/width'')]"

subsection \<open>\<open>get_dataset\<close>\<close>

text \<open>
  The function in state-passing form: it takes the module state and returns its outcome
  together with the module state after the call. The local names \<open>SHAPE_DIMS\<close> and
  \<open>SHAPE_BINS\<close> are assigned in the body, so they are locals read from the descriptor;
  \<open>POSE_BINS\<close> is not assigned and is the module constant.
\<close>

definition get_dataset_st ::
  "module_state \<Rightarrow> 'a flags_scheme \<Rightarrow> string \<Rightarrow> string \<Rightarrow> string \<Rightarrow> (error + Dataset) \<times> module_state"
where
  "get_dataset_st g FLAGS dataset_name split_name dataset_dir =
     (case g_DATASETS_INFORMATION g dataset_name of
        None \<Rightarrow> (Inl (ValueError ''The specified dataset is not supported yet.''), g)
      | Some info \<Rightarrow>
          (case splits_to_sizes info split_name of
             None \<Rightarrow>
               (Inl (ValueError (str_mod ''data split name %s not recognized'' split_name)), g)
           | Some num \<Rightarrow>
               (let file_pattern = FILE_PATTERN;
                    file_pattern = os_path_join dataset_dir (str_mod file_pattern split_name);
                    decoder =
                      (if split_name \<noteq> ''test''
                       then \<lparr> keys_to_features = train_keys_to_features,
                              items_to_handlers = train_items_to_handlers \<rparr>
                       else \<lparr> keys_to_features = test_keys_to_features,
                              items_to_handlers = test_items_to_handlers \<rparr>)
                in (Inr \<lparr> ds_data_sources = file_pattern,
                          ds_reader = TFRecordReader,
                          ds_decoder = decoder,
                          ds_num_samples = num,
                          ds_items_to_descriptions = g_ITEMS_TO_DESCRIPTIONS g,
                          ds_pose_range = pose_range info,
                          ds_bin_nums = bin_nums info,
                          ds_SHAPE_DIMS = shape_dims info,
                          ds_output_names = output_names info,
                          ds_output_names_summary = output_names_summary info,
                          ds_num_classes = num_classes info,
                          ds_SHAPE_BINS = shape_bins info,
                          ds_POSE_BINS = POSE_BINS,
                          ds_name = dataset_name,
                          ds_height_ori = height_ori info,
                          ds_width_ori = width_ori info,
                          ds_multi_label = True,
                          ds_if_depth = if_depth FLAGS \<rparr>, g))))"

text \<open>A call in the module as it stands after import.\<close>

definition get_dataset :: "'a flags_scheme \<Rightarrow> string \<Rightarrow> string \<Rightarrow> string \<Rightarrow> error + Dataset" where
  "get_dataset FLAGS dataset_name split_name dataset_dir =
     fst (get_dataset_st module_init FLAGS dataset_name split_name dataset_dir)"

text \<open>The two error values of the function.\<close>

definition unsupported_dataset :: error where
  "unsupported_dataset = ValueError ''The specified dataset is not supported yet.''"

definition unrecognized_split :: "string \<Rightarrow> error" where
  "unrecognized_split split_name =
     ValueError (''data split name '' @ split_name @ '' not recognized'')"

text \<open>The keys of the feature dictionary the handle's decoder was built from.\<close>

definition schema_keys :: "Dataset \<Rightarrow> string list" where
  "schema_keys h = map fst (keys_to_features (ds_decoder h))"

text \<open>
  A module state whose registry holds a second dataset with other shape parameters; it
  instantiates the statements that range over every registry.
\<close>

definition other_registry :: module_state where
  "other_registry =
     module_init \<lparr> g_DATASETS_INFORMATION :=
       DATASETS_INFORMATION (''other'' \<mapsto>
         APOLLOSCAPE_INFORMATION \<lparr> shape_dims := 5, shape_bins := 16 \<rparr>) \<rparr>"

section \<open>Properties\<close>

subsection \<open>Helper facts\<close>

lemma registry_lookup:
  "g_DATASETS_INFORMATION module_init n =
     (if n = ''apolloscape'' then Some APOLLOSCAPE_INFORMATION else None)"
  by (simp add: module_init_def DATASETS_INFORMATION_def)

lemma apolloscape_splits:
  "splits_to_sizes APOLLOSCAPE_INFORMATION s =
     (if s = ''test'' then Some 1041 else if s = ''val'' then Some 480
      else if s = ''train'' then Some 4611 else None)"
  by (simp add: APOLLOSCAPE_INFORMATION_def)

lemma split_message:
  "str_mod ''data split name %s not recognized'' s = ''data split name '' @ s @ '' not recognized''"
  by simp

lemma file_pattern_subst: "str_mod FILE_PATTERN s = s @ ''-*''"
  by (simp add: FILE_PATTERN_def)

lemma endswith_slash: "endswith a ''/'' \<longleftrightarrow> a \<noteq> [] \<and> last a = CHR ''/''"
proof (cases a rule: rev_cases)
  case Nil
  then show ?thesis by (simp add: endswith_def)
next
  case (snoc ys y)
  then show ?thesis by (simp add: endswith_def)
qed

lemma startswith_slash: "startswith b ''/'' \<longleftrightarrow> b \<noteq> [] \<and> hd b = CHR ''/''"
  by (cases b) (simp_all add: startswith_def)

lemma registry_init: "g_DATASETS_INFORMATION module_init = DATASETS_INFORMATION"
  by (simp add: module_init_def)

lemma get_dataset_success:
  assumes "get_dataset FLAGS n s d = Inr h"
  shows "n = ''apolloscape'' \<and> s \<in> {''train'', ''val'', ''test''}"
  using assms
  by (auto simp: get_dataset_def get_dataset_st_def registry_lookup apolloscape_splits Let_def
      split: option.splits if_splits)

lemma get_dataset_st_success:
  assumes "fst (get_dataset_st g FLAGS n s d) = Inr h"
  shows "\<exists>info num. g_DATASETS_INFORMATION g n = Some info \<and> splits_to_sizes info s = Some num
     \<and> h = \<lparr> ds_data_sources = os_path_join d (str_mod FILE_PATTERN s),
             ds_reader = TFRecordReader,
             ds_decoder =
               (if s \<noteq> ''test''
                then \<lparr> keys_to_features = train_keys_to_features,
                       items_to_handlers = train_items_to_handlers \<rparr>
                else \<lparr> keys_to_features = test_keys_to_features,
                       items_to_handlers = test_items_to_handlers \<rparr>),
             ds_num_samples = num,
             ds_items_to_descriptions = g_ITEMS_TO_DESCRIPTIONS g,
             ds_pose_range = pose_range info,
             ds_bin_nums = bin_nums info,
             ds_SHAPE_DIMS = shape_dims info,
             ds_output_names = output_names info,
             ds_output_names_summary = output_names_summary info,
             ds_num_classes = num_classes info,
             ds_SHAPE_BINS = shape_bins info,
             ds_POSE_BINS = POSE_BINS,
             ds_name = n,
             ds_height_ori = height_ori info,
             ds_width_ori = width_ori info,
             ds_multi_label = True,
             ds_if_depth = if_depth FLAGS \<rparr>"
  using assms
  by (auto simp: get_dataset_st_def Let_def split: option.splits)

lemma train_keys:
  "map fst train_keys_to_features =
     [''image/encoded'', ''image/filename'', ''image/format'', ''image/height'', ''image/width'',
      ''posedict/encoded'', ''rotuvddict/encoded'', ''bboxdict/encoded'', ''shapeiddict/encoded'',
      ''vis/encoded'', ''vis/format'', ''depth/encoded'', ''depth/format'',
      ''seg/encoded'', ''seg/format'', ''shape_id_map/encoded'', ''shape_id_map/format'']"
  by (simp add: train_keys_to_features_def)

lemma test_keys:
  "map fst test_keys_to_features =
     [''image/encoded'', ''image/filename'', ''image/format'', ''image/height'', ''image/width'',
      ''seg/encoded'', ''seg/format'']"
  by (simp add: test_keys_to_features_def)

lemma train_keys_distinct: "distinct (map fst train_keys_to_features)"
  unfolding train_keys by simp

lemma test_keys_distinct: "distinct (map fst test_keys_to_features)"
  unfolding test_keys by simp

lemma train_keys_set:
  "set (map fst train_keys_to_features) =
     {''image/encoded'', ''image/filename'', ''image/format'', ''image/height'', ''image/width'',
      ''posedict/encoded'', ''rotuvddict/encoded'', ''bboxdict/encoded'', ''shapeiddict/encoded'',
      ''vis/encoded'', ''vis/format'', ''depth/encoded'', ''depth/format'',
      ''seg/encoded'', ''seg/format'', ''shape_id_map/encoded'', ''shape_id_map/format''}"
  unfolding train_keys by simp

lemma test_keys_set:
  "set (map fst test_keys_to_features) =
     {''image/encoded'', ''image/filename'', ''image/format'', ''image/height'', ''image/width'',
      ''seg/encoded'', ''seg/format''}"
  unfolding test_keys by simp

lemma train_keys_card: "card (set (map fst train_keys_to_features)) = 17"
  using distinct_card [OF train_keys_distinct] by (simp add: train_keys_to_features_def)

lemma test_keys_card: "card (set (map fst test_keys_to_features)) = 7"
  using distinct_card [OF test_keys_distinct] by (simp add: test_keys_to_features_def)

lemma test_keys_prefix:
  "k \<in> set (map fst test_keys_to_features) \<Longrightarrow> startswith k ''image/'' \<or> startswith k ''seg/''"
  unfolding test_keys by (auto simp: startswith_def)

subsection \<open>The claims\<close>

text \<open>
  C1: for the registered dataset \<open>apolloscape\<close>, each declared split name resolves to a
  handle whose \<open>num_samples\<close> is the configured literal: 4611 for \<open>train\<close>, 480 for \<open>val\<close>,
  1041 for \<open>test\<close>, for every configuration and directory.
\<close>

theorem get_dataset_num_samples:
  "(\<exists>h. get_dataset FLAGS ''apolloscape'' ''train'' dataset_dir = Inr h \<and> ds_num_samples h = 4611)
   \<and> (\<exists>h. get_dataset FLAGS ''apolloscape'' ''val'' dataset_dir = Inr h \<and> ds_num_samples h = 480)
   \<and> (\<exists>h. get_dataset FLAGS ''apolloscape'' ''test'' dataset_dir = Inr h \<and> ds_num_samples h = 1041)"
  by (simp add: get_dataset_def get_dataset_st_def registry_lookup apolloscape_splits Let_def)

text \<open>
  C2: a dataset name that is not a key of the registry makes the call fail with the
  unsupported-dataset error, for every split name, directory and configuration; the
  error is never the unrecognized-split error of any split name.
\<close>

theorem get_dataset_unsupported:
  assumes "dataset_name \<notin> dom DATASETS_INFORMATION"
  shows "get_dataset FLAGS dataset_name split_name dataset_dir = Inl unsupported_dataset
         \<and> get_dataset FLAGS dataset_name split_name dataset_dir
             \<noteq> Inl (unrecognized_split any_split)"
proof -
  from assms have "g_DATASETS_INFORMATION module_init dataset_name = None"
    by (simp add: dom_def registry_init)
  then have "get_dataset FLAGS dataset_name split_name dataset_dir = Inl unsupported_dataset"
    by (simp add: get_dataset_def get_dataset_st_def unsupported_dataset_def)
  moreover have "unsupported_dataset \<noteq> unrecognized_split any_split"
    by (simp add: unsupported_dataset_def unrecognized_split_def)
  ultimately show ?thesis by simp
qed

theorem get_dataset_unsupported_witness:
  "''nonexistent'' \<notin> dom DATASETS_INFORMATION
   \<and> get_dataset \<lparr>if_depth = False\<rparr> ''nonexistent'' ''train'' ''/data''
        = Inl (ValueError ''The specified dataset is not supported yet.'')
   \<and> get_dataset \<lparr>if_depth = False\<rparr> ''nonexistent'' ''train'' ''/data''
        \<noteq> Inl (unrecognized_split ''train'')"
proof -
  have h: "''nonexistent'' \<notin> dom DATASETS_INFORMATION"
    by (simp add: DATASETS_INFORMATION_def)
  from get_dataset_unsupported [OF h, of "\<lparr>if_depth = False\<rparr>" "''train''" "''/data''" "''train''"] h
  show ?thesis unfolding unsupported_dataset_def by blast
qed

text \<open>
  C3: for \<open>apolloscape\<close>, a split name that is not a key of its \<open>splits_to_sizes\<close> makes
  the call fail with the unrecognized-split error carrying that name; and a call fails
  exactly when the dataset name is not registered or the split name is not a key of the
  registered descriptor's \<open>splits_to_sizes\<close>. The registry's only key is \<open>apolloscape\<close>
  and its split names are \<open>train\<close>, \<open>val\<close> and \<open>test\<close>.
\<close>

theorem get_dataset_raises_iff:
  "(split_name \<notin> dom (splits_to_sizes APOLLOSCAPE_INFORMATION) \<longrightarrow>
      get_dataset FLAGS ''apolloscape'' split_name dataset_dir = Inl (unrecognized_split split_name))
   \<and> (isl (get_dataset FLAGS dataset_name split_name dataset_dir) \<longleftrightarrow>
        dataset_name \<notin> dom DATASETS_INFORMATION
        \<or> (\<exists>info. DATASETS_INFORMATION dataset_name = Some info
              \<and> split_name \<notin> dom (splits_to_sizes info)))
   \<and> dom DATASETS_INFORMATION = {''apolloscape''}
   \<and> dom (splits_to_sizes APOLLOSCAPE_INFORMATION) = {''train'', ''val'', ''test''}"
proof -
  have a: "split_name \<notin> dom (splits_to_sizes APOLLOSCAPE_INFORMATION) \<longrightarrow>
      get_dataset FLAGS ''apolloscape'' split_name dataset_dir = Inl (unrecognized_split split_name)"
    by (auto simp: get_dataset_def get_dataset_st_def registry_lookup unrecognized_split_def dom_def
        split: option.splits)
  have b: "isl (get_dataset FLAGS dataset_name split_name dataset_dir) \<longleftrightarrow>
        dataset_name \<notin> dom DATASETS_INFORMATION
        \<or> (\<exists>info. DATASETS_INFORMATION dataset_name = Some info
              \<and> split_name \<notin> dom (splits_to_sizes info))"
    by (auto simp: get_dataset_def get_dataset_st_def registry_init Let_def dom_def
        split: option.splits)
  have c: "dom DATASETS_INFORMATION = {''apolloscape''}"
    by (simp add: DATASETS_INFORMATION_def)
  have d: "dom (splits_to_sizes APOLLOSCAPE_INFORMATION) = {''train'', ''val'', ''test''}"
    by (auto simp: apolloscape_splits dom_def split: if_splits)
  from a b c d show ?thesis by blast
qed

theorem get_dataset_raises_iff_witness:
  "''trainval'' \<notin> dom (splits_to_sizes APOLLOSCAPE_INFORMATION)
   \<and> get_dataset \<lparr>if_depth = True\<rparr> ''apolloscape'' ''trainval'' ''/data''
       = Inl (ValueError ''data split name trainval not recognized'')
   \<and> isl (get_dataset \<lparr>if_depth = True\<rparr> ''apolloscape'' ''trainval'' ''/data'')
   \<and> \<not> isl (get_dataset \<lparr>if_depth = True\<rparr> ''apolloscape'' ''val'' ''/data'')"
proof -
  have h: "''trainval'' \<notin> dom (splits_to_sizes APOLLOSCAPE_INFORMATION)"
    by (simp add: dom_def apolloscape_splits)
  have v: "''val'' \<in> dom (splits_to_sizes APOLLOSCAPE_INFORMATION)"
    by (simp add: dom_def apolloscape_splits)
  have r: "DATASETS_INFORMATION ''apolloscape'' = Some APOLLOSCAPE_INFORMATION"
    by (simp add: DATASETS_INFORMATION_def)
  from get_dataset_raises_iff [of "''trainval''" "\<lparr>if_depth = True\<rparr>" "''/data''" "''apolloscape''"]
       get_dataset_raises_iff [of "''val''" "\<lparr>if_depth = True\<rparr>" "''/data''" "''apolloscape''"]
       h v r
  show ?thesis by (simp add: unrecognized_split_def)
qed

text \<open>
  C4, as stated, fails: with the directory \<open>data/\<close> the call succeeds and the handle's file
  pattern is \<open>data/train-*\<close>, not \<open>data//train-*\<close>, because the directory and the
  substituted template are combined by \<open>os.path.join\<close>, which adds no separator after a
  directory that already ends in one.
\<close>

theorem file_pattern_counterexample:
  "\<not> isl (get_dataset \<lparr>if_depth = True\<rparr> ''apolloscape'' ''train'' ''data/'')
   \<and> ds_data_sources (projr (get_dataset \<lparr>if_depth = True\<rparr> ''apolloscape'' ''train'' ''data/''))
       = ''data/train-*''
   \<and> ds_data_sources (projr (get_dataset \<lparr>if_depth = True\<rparr> ''apolloscape'' ''train'' ''data/''))
       \<noteq> ''data/'' @ ''/'' @ ''train'' @ ''-*''"
  by (simp add: get_dataset_def get_dataset_st_def registry_lookup apolloscape_splits Let_def
      file_pattern_subst os_path_join_def startswith_def endswith_def)

text \<open>
  C4, amended: for every successful call the file pattern is
  \<open>os.path.join(dataset_dir, split_name + "-*")\<close>, that is
  \<open><dataset_dir>/<split_name>-*\<close> when the directory is non-empty and does not end in
  \<open>/\<close>, and \<open><dataset_dir><split_name>-*\<close> when the directory is empty or ends in \<open>/\<close>;
  it depends on the directory and the split name only.
\<close>

theorem get_dataset_file_pattern:
  assumes "get_dataset FLAGS dataset_name split_name dataset_dir = Inr h"
  shows "ds_data_sources h = os_path_join dataset_dir (split_name @ ''-*'')
         \<and> ds_data_sources h =
             (if dataset_dir = [] \<or> last dataset_dir = CHR ''/''
              then dataset_dir @ split_name @ ''-*''
              else dataset_dir @ ''/'' @ split_name @ ''-*'')"
proof -
  from get_dataset_success [OF assms] have s: "split_name \<in> {''train'', ''val'', ''test''}"
    by blast
  from assms have "fst (get_dataset_st module_init FLAGS dataset_name split_name dataset_dir) = Inr h"
    by (simp add: get_dataset_def)
  from get_dataset_st_success [OF this]
  have p: "ds_data_sources h = os_path_join dataset_dir (split_name @ ''-*'')"
    by (auto simp: file_pattern_subst)
  from s have "\<not> startswith (split_name @ ''-*'') ''/''"
    by (auto simp: startswith_def)
  then have "os_path_join dataset_dir (split_name @ ''-*'') =
             (if dataset_dir = [] \<or> last dataset_dir = CHR ''/''
              then dataset_dir @ split_name @ ''-*''
              else dataset_dir @ ''/'' @ split_name @ ''-*'')"
    by (simp add: os_path_join_def endswith_slash)
  with p show ?thesis by simp
qed

theorem get_dataset_file_pattern_witness:
  "get_dataset \<lparr>if_depth = False\<rparr> ''apolloscape'' ''val'' ''/data/tfrecord''
     = Inr (projr (get_dataset \<lparr>if_depth = False\<rparr> ''apolloscape'' ''val'' ''/data/tfrecord''))
   \<and> ds_data_sources (projr (get_dataset \<lparr>if_depth = False\<rparr> ''apolloscape'' ''val'' ''/data/tfrecord''))
       = ''/data/tfrecord/val-*''"
proof -
  have h: "get_dataset \<lparr>if_depth = False\<rparr> ''apolloscape'' ''val'' ''/data/tfrecord''
     = Inr (projr (get_dataset \<lparr>if_depth = False\<rparr> ''apolloscape'' ''val'' ''/data/tfrecord''))"
    by (simp add: get_dataset_def get_dataset_st_def registry_lookup apolloscape_splits Let_def)
  from get_dataset_file_pattern [OF h] h show ?thesis
    by (simp add: os_path_join_def startswith_def endswith_def)
qed

text \<open>
  C5, as stated, fails on the counts: the schema of a non-\<open>test\<close> split has seventeen
  record keys, not fourteen, and the schema of \<open>test\<close> has seven, not five.
\<close>

theorem schema_keys_counterexample:
  "\<not> isl (get_dataset \<lparr>if_depth = True\<rparr> ''apolloscape'' ''train'' ''/data'')
   \<and> card (set (schema_keys (projr (get_dataset \<lparr>if_depth = True\<rparr> ''apolloscape'' ''train'' ''/data''))))
        = 17
   \<and> card (set (schema_keys (projr (get_dataset \<lparr>if_depth = True\<rparr> ''apolloscape'' ''train'' ''/data''))))
        \<noteq> 14
   \<and> \<not> isl (get_dataset \<lparr>if_depth = True\<rparr> ''apolloscape'' ''test'' ''/data'')
   \<and> card (set (schema_keys (projr (get_dataset \<lparr>if_depth = True\<rparr> ''apolloscape'' ''test'' ''/data''))))
        = 7
   \<and> card (set (schema_keys (projr (get_dataset \<lparr>if_depth = True\<rparr> ''apolloscape'' ''test'' ''/data''))))
        \<noteq> 5"
  using train_keys_card test_keys_card
  by (simp add: get_dataset_def get_dataset_st_def registry_lookup apolloscape_splits Let_def
      schema_keys_def)

text \<open>
  C5, amended: for every successful call, if the split name is not \<open>test\<close> the schema's
  keys are exactly the seventeen record keys (five \<open>image/*\<close>, the four dictionaries, and
  two each of \<open>vis/*\<close>, \<open>depth/*\<close>, \<open>seg/*\<close>, \<open>shape_id_map/*\<close>); if it is \<open>test\<close> they are
  exactly the seven keys of \<open>image/*\<close> and \<open>seg/*\<close>, so none of the pose, shape, depth or
  vis keys is present.
\<close>

theorem get_dataset_schema_keys:
  assumes "get_dataset FLAGS dataset_name split_name dataset_dir = Inr h"
  shows "(split_name \<noteq> ''test'' \<longrightarrow>
            set (schema_keys h) =
              {''image/encoded'', ''image/filename'', ''image/format'', ''image/height'', ''image/width'',
               ''posedict/encoded'', ''rotuvddict/encoded'', ''bboxdict/encoded'', ''shapeiddict/encoded'',
               ''vis/encoded'', ''vis/format'', ''depth/encoded'', ''depth/format'',
               ''seg/encoded'', ''seg/format'', ''shape_id_map/encoded'', ''shape_id_map/format''}
            \<and> distinct (schema_keys h) \<and> card (set (schema_keys h)) = 17)
       \<and> (split_name = ''test'' \<longrightarrow>
            set (schema_keys h) =
              {''image/encoded'', ''image/filename'', ''image/format'', ''image/height'', ''image/width'',
               ''seg/encoded'', ''seg/format''}
            \<and> distinct (schema_keys h) \<and> card (set (schema_keys h)) = 7
            \<and> (\<forall>k \<in> set (schema_keys h). startswith k ''image/'' \<or> startswith k ''seg/''))"
proof -
  from assms have "fst (get_dataset_st module_init FLAGS dataset_name split_name dataset_dir) = Inr h"
    by (simp add: get_dataset_def)
  from get_dataset_st_success [OF this]
  have "keys_to_features (ds_decoder h) =
          (if split_name \<noteq> ''test'' then train_keys_to_features else test_keys_to_features)"
    by auto
  then have k: "schema_keys h =
          (if split_name \<noteq> ''test'' then map fst train_keys_to_features
           else map fst test_keys_to_features)"
    by (simp add: schema_keys_def)
  show ?thesis
  proof (cases "split_name = ''test''")
    case True
    with k have e: "schema_keys h = map fst test_keys_to_features" by simp
    have "\<forall>k \<in> set (schema_keys h). startswith k ''image/'' \<or> startswith k ''seg/''"
      unfolding e using test_keys_prefix by blast
    with True show ?thesis
      unfolding e using test_keys_set test_keys_distinct test_keys_card by blast
  next
    case False
    with k have e: "schema_keys h = map fst train_keys_to_features" by simp
    from False show ?thesis
      unfolding e using train_keys_set train_keys_distinct train_keys_card by blast
  qed
qed

theorem get_dataset_schema_keys_witness:
  "card (set (schema_keys (projr (get_dataset \<lparr>if_depth = True\<rparr> ''apolloscape'' ''val'' ''/data''))))
     = 17
   \<and> card (set (schema_keys (projr (get_dataset \<lparr>if_depth = True\<rparr> ''apolloscape'' ''test'' ''/data''))))
     = 7
   \<and> ''depth/encoded''
       \<in> set (schema_keys (projr (get_dataset \<lparr>if_depth = True\<rparr> ''apolloscape'' ''val'' ''/data'')))
   \<and> ''depth/encoded''
       \<notin> set (schema_keys (projr (get_dataset \<lparr>if_depth = True\<rparr> ''apolloscape'' ''test'' ''/data'')))"
proof -
  have v: "get_dataset \<lparr>if_depth = True\<rparr> ''apolloscape'' ''val'' ''/data''
     = Inr (projr (get_dataset \<lparr>if_depth = True\<rparr> ''apolloscape'' ''val'' ''/data''))"
    by (simp add: get_dataset_def get_dataset_st_def registry_lookup apolloscape_splits Let_def)
  have t: "get_dataset \<lparr>if_depth = True\<rparr> ''apolloscape'' ''test'' ''/data''
     = Inr (projr (get_dataset \<lparr>if_depth = True\<rparr> ''apolloscape'' ''test'' ''/data''))"
    by (simp add: get_dataset_def get_dataset_st_def registry_lookup apolloscape_splits Let_def)
  from get_dataset_schema_keys [OF v] get_dataset_schema_keys [OF t]
  show ?thesis by simp
qed

text \<open>
  C6, as stated, fails: in the \<open>apolloscape\<close> descriptor \<open>pose_range\<close> has 8 entries and
  \<open>bin_nums\<close> has 18, so the two lengths differ.
\<close>

theorem pose_range_length_counterexample:
  "length (pose_range APOLLOSCAPE_INFORMATION) = 8
   \<and> length (bin_nums APOLLOSCAPE_INFORMATION) = 18
   \<and> length (pose_range APOLLOSCAPE_INFORMATION) \<noteq> length (bin_nums APOLLOSCAPE_INFORMATION)"
  by (simp add: APOLLOSCAPE_INFORMATION_def SHAPE_DIMS_def)

text \<open>
  C6, amended: in the registered \<open>apolloscape\<close> descriptor \<open>pose_range\<close> has one entry for
  each of the 8 fixed pose channels, and \<open>bin_nums\<close> has \<open>shape_dims + 8 = 18\<close> entries,
  that is, the length of \<open>pose_range\<close> plus \<open>shape_dims\<close>.
\<close>

theorem pose_range_bin_nums_length:
  "DATASETS_INFORMATION ''apolloscape'' = Some APOLLOSCAPE_INFORMATION
   \<and> length (pose_range APOLLOSCAPE_INFORMATION) = 8
   \<and> length (bin_nums APOLLOSCAPE_INFORMATION) = shape_dims APOLLOSCAPE_INFORMATION + 8
   \<and> shape_dims APOLLOSCAPE_INFORMATION = 10
   \<and> length (bin_nums APOLLOSCAPE_INFORMATION)
       = length (pose_range APOLLOSCAPE_INFORMATION) + shape_dims APOLLOSCAPE_INFORMATION"
  by (simp add: DATASETS_INFORMATION_def APOLLOSCAPE_INFORMATION_def SHAPE_DIMS_def)

text \<open>
  C7: for every successful call the handle's \<open>if_depth\<close> is the \<open>if_depth\<close> of the caller's
  configuration, whichever of the two values it has.
\<close>

theorem get_dataset_if_depth:
  assumes "get_dataset FLAGS dataset_name split_name dataset_dir = Inr h"
  shows "ds_if_depth h = if_depth FLAGS"
proof -
  from assms have "fst (get_dataset_st module_init FLAGS dataset_name split_name dataset_dir) = Inr h"
    by (simp add: get_dataset_def)
  from get_dataset_st_success [OF this] show ?thesis by auto
qed

theorem get_dataset_if_depth_witness:
  "ds_if_depth (projr (get_dataset \<lparr>if_depth = True\<rparr> ''apolloscape'' ''train'' ''/data'')) = True
   \<and> ds_if_depth (projr (get_dataset \<lparr>if_depth = False\<rparr> ''apolloscape'' ''train'' ''/data'')) = False"
proof -
  have a: "get_dataset \<lparr>if_depth = True\<rparr> ''apolloscape'' ''train'' ''/data''
     = Inr (projr (get_dataset \<lparr>if_depth = True\<rparr> ''apolloscape'' ''train'' ''/data''))"
    by (simp add: get_dataset_def get_dataset_st_def registry_lookup apolloscape_splits Let_def)
  have b: "get_dataset \<lparr>if_depth = False\<rparr> ''apolloscape'' ''train'' ''/data''
     = Inr (projr (get_dataset \<lparr>if_depth = False\<rparr> ''apolloscape'' ''train'' ''/data''))"
    by (simp add: get_dataset_def get_dataset_st_def registry_lookup apolloscape_splits Let_def)
  from get_dataset_if_depth [OF a] get_dataset_if_depth [OF b] show ?thesis by simp
qed

text \<open>
  C9, as stated, fails for the summary names: \<open>output_names_summary\<close> of the
  \<open>apolloscape\<close> descriptor has 17 entries, not \<open>shape_dims + 8 = 18\<close>.
\<close>

theorem output_names_summary_counterexample:
  "length (output_names_summary APOLLOSCAPE_INFORMATION) = 17
   \<and> length (output_names_summary APOLLOSCAPE_INFORMATION)
       \<noteq> shape_dims APOLLOSCAPE_INFORMATION + 8"
  by (simp add: APOLLOSCAPE_INFORMATION_def SHAPE_DIMS_def shape_names_def)

text \<open>
  C9, amended: in the registered \<open>apolloscape\<close> descriptor \<open>output_names\<close> has
  \<open>shape_dims + 8 = 18\<close> entries, and \<open>output_names_summary\<close> has \<open>shape_dims + 7 = 17\<close>
  entries (it names one depth channel, \<open>z_object\<close>, where \<open>output_names\<close> names two).
\<close>

theorem output_names_length:
  "DATASETS_INFORMATION ''apolloscape'' = Some APOLLOSCAPE_INFORMATION
   \<and> length (output_names APOLLOSCAPE_INFORMATION) = shape_dims APOLLOSCAPE_INFORMATION + 8
   \<and> length (output_names APOLLOSCAPE_INFORMATION) = 18
   \<and> length (output_names_summary APOLLOSCAPE_INFORMATION) = shape_dims APOLLOSCAPE_INFORMATION + 7
   \<and> length (output_names_summary APOLLOSCAPE_INFORMATION) = 17"
  by (simp add: DATASETS_INFORMATION_def APOLLOSCAPE_INFORMATION_def SHAPE_DIMS_def shape_names_def)

text \<open>
  C10: whatever the registry holds and whichever dataset is resolved, the handle of a
  successful call carries \<open>POSE_BINS = 128\<close>, the module constant, while its \<open>SHAPE_DIMS\<close>
  and \<open>SHAPE_BINS\<close> are the \<open>shape_dims\<close> and \<open>shape_bins\<close> of the resolved descriptor.
\<close>

theorem get_dataset_pose_bins:
  assumes "fst (get_dataset_st g FLAGS dataset_name split_name dataset_dir) = Inr h"
  shows "ds_POSE_BINS h = 128
         \<and> (\<exists>info. g_DATASETS_INFORMATION g dataset_name = Some info
               \<and> ds_SHAPE_DIMS h = shape_dims info \<and> ds_SHAPE_BINS h = shape_bins info)"
  using get_dataset_st_success [OF assms] by (auto simp: POSE_BINS_def)

theorem get_dataset_pose_bins_witness:
  "ds_POSE_BINS (projr (fst (get_dataset_st other_registry \<lparr>if_depth = True\<rparr> ''other'' ''val'' ''/data''))) = 128
   \<and> ds_SHAPE_DIMS (projr (fst (get_dataset_st other_registry \<lparr>if_depth = True\<rparr> ''other'' ''val'' ''/data''))) = 5
   \<and> ds_SHAPE_BINS (projr (fst (get_dataset_st other_registry \<lparr>if_depth = True\<rparr> ''other'' ''val'' ''/data''))) = 16
   \<and> ds_POSE_BINS (projr (get_dataset \<lparr>if_depth = True\<rparr> ''apolloscape'' ''val'' ''/data'')) = 128"
proof -
  have r: "g_DATASETS_INFORMATION other_registry ''other''
             = Some (APOLLOSCAPE_INFORMATION \<lparr> shape_dims := 5, shape_bins := 16 \<rparr>)"
    by (simp add: other_registry_def)
  have a: "fst (get_dataset_st other_registry \<lparr>if_depth = True\<rparr> ''other'' ''val'' ''/data'')
     = Inr (projr (fst (get_dataset_st other_registry \<lparr>if_depth = True\<rparr> ''other'' ''val'' ''/data'')))"
    by (simp add: get_dataset_st_def r apolloscape_splits Let_def)
  have b: "fst (get_dataset_st module_init \<lparr>if_depth = True\<rparr> ''apolloscape'' ''val'' ''/data'')
     = Inr (projr (get_dataset \<lparr>if_depth = True\<rparr> ''apolloscape'' ''val'' ''/data''))"
    by (simp add: get_dataset_def get_dataset_st_def registry_lookup apolloscape_splits Let_def)
  from get_dataset_pose_bins [OF a] get_dataset_pose_bins [OF b] r
  show ?thesis by simp
qed

end
